theory Spec2Isabelle
  imports Complex_Main
begin

unbundle bit_operations_syntax

section \<open>Data model of \<^verbatim>\<open>src/bin/boat.py\<close>\<close>

subsection \<open>The two enumerations\<close>

text \<open>
  \<^verbatim>\<open>class Status(Enum)\<close> and \<^verbatim>\<open>class ControlAuthority(Enum)\<close>. Both have a member
  called \<^verbatim>\<open>UNDEFINED\<close>; as in the source the members are always written with the name
  of their class (\<open>Status.UNDEFINED\<close>, \<open>ControlAuthority.UNDEFINED\<close>).
\<close>

datatype Status = UNDEFINED | ARMED | DISARMED | EMERGENCY

datatype ControlAuthority = UNDEFINED | MANUAL | REMOTE | AUTOMATIC

text \<open>The \<^verbatim>\<open>.value\<close> of a \<^verbatim>\<open>ControlAuthority\<close> member (lines 14 to 17).\<close>

fun authority_value :: "ControlAuthority \<Rightarrow> int" where
  "authority_value ControlAuthority.UNDEFINED = -1"
| "authority_value ControlAuthority.MANUAL = 0"
| "authority_value ControlAuthority.REMOTE = 1"
| "authority_value ControlAuthority.AUTOMATIC = 2"

subsection \<open>Python values handed to the setters\<close>

text \<open>
  \<^verbatim>\<open>set_rudder\<close> and \<^verbatim>\<open>set_throttle\<close> pass their argument through the builtin
  \<^verbatim>\<open>int()\<close>, so the argument may be any Python object. An integer is itself; a finite
  float is given by its exact rational value and \<^verbatim>\<open>int()\<close> truncates it towards zero;
  on NaN, on an infinity and on \<^verbatim>\<open>None\<close> the builtin raises. Every other object (a
  \<^verbatim>\<open>str\<close>, a \<^verbatim>\<open>bool\<close>, an instance with \<^verbatim>\<open>__int__\<close>) is represented by what
  \<^verbatim>\<open>int()\<close> makes of it: \<open>PyObj (Some n)\<close> when the builtin returns \<open>n\<close>,
  \<open>PyObj None\<close> when it raises.
\<close>

datatype py_value =
    PyInt int
  | PyFloat rat
  | PyNaN
  | PyInf
  | PyNone
  | PyObj "int option"

fun py_int :: "py_value \<Rightarrow> int option" where
  "py_int (PyInt n) = Some n"
| "py_int (PyFloat x) = Some (if x < 0 then \<lceil>x\<rceil> else \<lfloor>x\<rfloor>)"
| "py_int PyNaN = None"
| "py_int PyInf = None"
| "py_int PyNone = None"
| "py_int (PyObj r) = r"

subsection \<open>Standard output\<close>

text \<open>
  A printed line is kept as the list of its pieces: the literal text of the format string
  and the values interpolated into it. \<^verbatim>\<open>print\<close> appends one line.
\<close>

datatype fragment = Lit string | Val py_value

type_synonym line = "fragment list"

subsection \<open>The MAVLink connection (pymavlink, outside the repository)\<close>

text \<open>
  The object returned by \<^verbatim>\<open>mavutil.mavlink_connection\<close> is modelled by what the boat can
  observe of it. Of an incoming message only its type and the fields the source reads are
  kept. The traffic still to come is a list of events: a message arriving, or a stretch of
  silence that lets a receive with a timeout give up. Everything the boat does on the
  connection is recorded, in order, in \<open>history\<close>.
\<close>

datatype message =
    HEARTBEAT (base_mode: int) (custom_mode: int)
  | RC_CHANNELS "int option"
  | OTHER string

fun get_type :: "message \<Rightarrow> string" where
  "get_type (HEARTBEAT bm cm) = ''HEARTBEAT''"
| "get_type (RC_CHANNELS c) = ''RC_CHANNELS''"
| "get_type (OTHER ty) = ty"

text \<open>
  \<^verbatim>\<open>message.chan11_raw if hasattr(message, 'chan11_raw') else None\<close> (line 93): the
  field of an \<^verbatim>\<open>RC_CHANNELS\<close> message when it carries one, \<open>None\<close> otherwise.
\<close>

fun chan11_raw_or_None :: "message \<Rightarrow> int option" where
  "chan11_raw_or_None (RC_CHANNELS c) = c"
| "chan11_raw_or_None (HEARTBEAT bm cm) = None"
| "chan11_raw_or_None (OTHER ty) = None"

datatype rx_event = Arrives message | Silence

datatype mav_cmd =
    MAV_CMD_COMPONENT_ARM_DISARM
  | MAV_CMD_DO_SET_RELAY
  | MAV_CMD_DO_SET_SERVO

datatype mavlink_out =
    COMMAND_LONG int int mav_cmd int "int list"
  | RC_CHANNELS_OVERRIDE int int "int list"

datatype link_io =
    Recv string "message option"
  | Send mavlink_out
  | Close

record mavfile =
  target_system :: int
  target_component :: int
  inbound :: "rx_event list"
  history :: "link_io list"

text \<open>The pymavlink constant \<^verbatim>\<open>MAV_MODE_FLAG_SAFETY_ARMED\<close> (MAVLink common dialect).\<close>

definition MAV_MODE_FLAG_SAFETY_ARMED :: int where
  "MAV_MODE_FLAG_SAFETY_ARMED = 128"

text \<open>
  \<^verbatim>\<open>recv_match(type=ty, blocking=True, timeout=1)\<close>: messages of another type are
  passed over; the first message of type \<open>ty\<close> is returned; silence, or the end of all
  traffic, gives \<open>None\<close>.
\<close>

fun await :: "string \<Rightarrow> rx_event list \<Rightarrow> message option \<times> rx_event list" where
  "await ty [] = (None, [])"
| "await ty (Silence # es) = (None, es)"
| "await ty (Arrives m # es) = (if get_type m = ty then (Some m, es) else await ty es)"

definition recv_match :: "string \<Rightarrow> mavfile \<Rightarrow> message option \<times> mavfile" where
  "recv_match ty v =
     (let (m, es) = await ty (inbound v)
      in (m, v\<lparr>inbound := es, history := history v @ [Recv ty m]\<rparr>))"

text \<open>
  \<^verbatim>\<open>wait_heartbeat()\<close> has no timeout: silence is waited out, and when no heartbeat ever
  arrives the call does not return (\<open>None\<close>).
\<close>

fun await_forever :: "string \<Rightarrow> rx_event list \<Rightarrow> (message \<times> rx_event list) option" where
  "await_forever ty [] = None"
| "await_forever ty (Silence # es) = await_forever ty es"
| "await_forever ty (Arrives m # es) =
     (if get_type m = ty then Some (m, es) else await_forever ty es)"

definition wait_heartbeat :: "mavfile \<Rightarrow> (message \<times> mavfile) option" where
  "wait_heartbeat v =
     (case await_forever ''HEARTBEAT'' (inbound v) of
        None \<Rightarrow> None
      | Some (m, es) \<Rightarrow>
          Some (m, v\<lparr>inbound := es, history := history v @ [Recv ''HEARTBEAT'' (Some m)]\<rparr>))"

definition command_long_send ::
  "mavfile \<Rightarrow> int \<Rightarrow> int \<Rightarrow> mav_cmd \<Rightarrow> int \<Rightarrow>
   int \<Rightarrow> int \<Rightarrow> int \<Rightarrow> int \<Rightarrow> int \<Rightarrow> int \<Rightarrow> int \<Rightarrow> mavfile" where
  "command_long_send v ts tc cmd confirmation p1 p2 p3 p4 p5 p6 p7 =
     v\<lparr>history := history v @ [Send (COMMAND_LONG ts tc cmd confirmation [p1, p2, p3, p4, p5, p6, p7])]\<rparr>"

definition rc_channels_override_send ::
  "mavfile \<Rightarrow> int \<Rightarrow> int \<Rightarrow>
   int \<Rightarrow> int \<Rightarrow> int \<Rightarrow> int \<Rightarrow> int \<Rightarrow> int \<Rightarrow> int \<Rightarrow> int \<Rightarrow> mavfile" where
  "rc_channels_override_send v ts tc c1 c2 c3 c4 c5 c6 c7 c8 =
     v\<lparr>history := history v @ [Send (RC_CHANNELS_OVERRIDE ts tc [c1, c2, c3, c4, c5, c6, c7, c8])]\<rparr>"

definition close :: "mavfile \<Rightarrow> mavfile" where
  "close v = v\<lparr>history := history v @ [Close]\<rparr>"

text \<open>The messages sent on a connection, oldest first.\<close>

fun sent :: "link_io list \<Rightarrow> mavlink_out list" where
  "sent [] = []"
| "sent (Send m # h) = m # sent h"
| "sent (Recv ty r # h) = sent h"
| "sent (Close # h) = sent h"

subsection \<open>The attributes of a \<^verbatim>\<open>Boat\<close>\<close>

text \<open>
  One field for each attribute assigned in the class, \<open>rc_channel_11_value\<close> included
  (assigned at line 93 only, so it is unset until a poll receives a message: the outer
  \<open>None\<close>). \<open>stdout\<close> is the text printed so far.
\<close>

record Boat =
  connection_string :: string
  baud :: int
  vehicle :: mavfile
  connected :: bool
  heartbeat_received :: bool
  confirm_commands :: bool
  current_rudder_value :: int
  current_throttle_value :: int
  last_command_sent :: py_value
  mode_switch :: py_value
  status :: Status
  control_authority :: ControlAuthority
  rc_channel_11_value :: "int option option"
  stdout :: "line list"

definition py_print :: "line \<Rightarrow> Boat \<Rightarrow> Boat" where
  "py_print l self = self\<lparr>stdout := stdout self @ [l]\<rparr>"

section \<open>The methods of \<^verbatim>\<open>Boat\<close>\<close>

subsection \<open>Authority arbitration (lines 65 to 103)\<close>

definition poll_rc_mode_switch :: "Boat \<Rightarrow> Boat" where
  "poll_rc_mode_switch self0 =
     (let (message, v) = recv_match ''RC_CHANNELS'' (vehicle self0);
          self = self0\<lparr>vehicle := v\<rparr>
      in case message of
           None \<Rightarrow> self
         | Some m \<Rightarrow>
            (let self = self\<lparr>rc_channel_11_value := Some (chan11_raw_or_None m)\<rparr>
             in case chan11_raw_or_None m of
                  Some x \<Rightarrow>
                   (let self = py_print [Lit ''RC Channel 11 value: '', Val (PyInt x)] self
                    in if x > 1500 \<and> control_authority self \<noteq> ControlAuthority.REMOTE then
                         py_print [Lit ''CONTROL AUTHORITY UPDATED TO REMOTE'']
                           (self\<lparr>control_authority := ControlAuthority.REMOTE\<rparr>)
                       else if x < 1500 \<and> control_authority self \<noteq> ControlAuthority.MANUAL then
                         py_print [Lit ''CONTROL AUTHORITY UPDATED TO MANUAL'']
                           (self\<lparr>control_authority := ControlAuthority.MANUAL\<rparr>)
                       else self)
                | None \<Rightarrow>
                    py_print [Lit ''RC Channel 11 value not available in the message.''] self))"

definition should_allow_rc_override :: "Boat \<Rightarrow> bool \<times> Boat" where
  "should_allow_rc_override self0 =
     (let self = (if control_authority self0 = ControlAuthority.UNDEFINED
                  then poll_rc_mode_switch self0 else self0);
          self = py_print [Val (PyInt (authority_value (control_authority self)))] self
      in (authority_value (control_authority self) \<noteq> 0, self))"

subsection \<open>Steering and throttle (lines 271 to 378)\<close>

definition update_steering :: "Boat \<Rightarrow> Boat" where
  "update_steering self0 =
     (let self = py_print [Lit ''Updated steering steering: '',
                           Val (PyInt (current_rudder_value self0)),
                           Lit '', throttle: '',
                           Val (PyInt (current_throttle_value self0))] self0
      in self\<lparr>vehicle :=
           rc_channels_override_send (vehicle self)
             (target_system (vehicle self)) (target_component (vehicle self))
             (current_rudder_value self)
             (current_throttle_value self)
             (current_throttle_value self)
             0 0 0 0 0\<rparr>)"

definition keep_alive_rc_override :: "Boat \<Rightarrow> Boat" where
  "keep_alive_rc_override self = update_steering self"

definition check_rc_mode :: "Boat \<Rightarrow> Boat" where
  "check_rc_mode self0 =
     (let self = poll_rc_mode_switch self0;
          (allow, self) = should_allow_rc_override self
      in if allow then keep_alive_rc_override (py_print [Lit ''Should allow rc override''] self)
         else self)"

text \<open>
  \<^verbatim>\<open>set_rudder\<close>. The \<^verbatim>\<open>try\<close> block holds the two calls of \<^verbatim>\<open>int()\<close> and the
  assignment; on the values above both calls give the same result, so the bare
  \<^verbatim>\<open>except\<close> is entered exactly when \<open>py_int\<close> is \<open>None\<close>. A value outside the band
  raises nothing: control leaves the \<^verbatim>\<open>try\<close> block and reaches line 290.
\<close>

definition set_rudder :: "Boat \<Rightarrow> py_value \<Rightarrow> Boat" where
  "set_rudder self0 steering_value =
     (if \<not> connected self0 then py_print [Lit ''Vehicle not connected''] self0
      else case py_int steering_value of
             None \<Rightarrow> py_print [Lit ''Invalid steering value: '', Val steering_value] self0
           | Some received_value \<Rightarrow>
              (let self = (if received_value \<ge> 1100 \<and> received_value \<le> 1900
                           then self0\<lparr>current_rudder_value := received_value\<rparr>
                           else self0);
                   (allow, self) = should_allow_rc_override self
               in if allow then
                    py_print [Lit ''Steering set to '', Val steering_value] (update_steering self)
                  else py_print [Lit ''Overriding RC channels currently disabled ''] self))"

definition set_throttle :: "Boat \<Rightarrow> py_value \<Rightarrow> Boat" where
  "set_throttle self0 throttle_value =
     (if \<not> connected self0 then py_print [Lit ''Vehicle not connected''] self0
      else case py_int throttle_value of
             None \<Rightarrow> py_print [Lit ''Invalid steering value: '', Val throttle_value] self0
           | Some received_value \<Rightarrow>
              (let self = (if received_value \<ge> 1100 \<and> received_value \<le> 1900
                           then self0\<lparr>current_throttle_value := received_value\<rparr>
                           else self0);
                   (allow, self) = should_allow_rc_override self
               in if allow then
                    py_print [Lit ''Throttle set to '', Val throttle_value] (update_steering self)
                  else py_print [Lit ''Overriding RC channels currently disabled ''] self))"

text \<open>
  \<^verbatim>\<open>set_raw_servo\<close>, on integer arguments (a servo number and a PWM value in
  microseconds).
\<close>

definition set_raw_servo :: "Boat \<Rightarrow> int \<Rightarrow> int \<Rightarrow> Boat" where
  "set_raw_servo self servo_number pwm_value0 =
     (if \<not> connected self then py_print [Lit ''Vehicle not connected''] self
      else
        (let pwm_value = max 1000 (min pwm_value0 2000);
             self = self\<lparr>vehicle :=
               command_long_send (vehicle self)
                 (target_system (vehicle self)) (target_component (vehicle self))
                 MAV_CMD_DO_SET_SERVO 0
                 servo_number pwm_value 0 0 0 0 0\<rparr>
         in py_print [Lit ''Set servo '', Val (PyInt servo_number),
                      Lit '' to PWM '', Val (PyInt pwm_value)] self))"

subsection \<open>Vehicle state (lines 130 to 197 and 380 to 406)\<close>

datatype 'a outcome = Returns 'a | Blocks 'a

text \<open>
  \<^verbatim>\<open>wait_for_heartbeat\<close> is the one method that may never return: \<open>Blocks\<close> carries
  the state in which the call hangs. A heartbeat message is a truthy object, so the
  \<^verbatim>\<open>if\<close> at line 135 is taken whenever \<^verbatim>\<open>wait_heartbeat()\<close> returns.
\<close>

definition wait_for_heartbeat :: "Boat \<Rightarrow> Boat outcome" where
  "wait_for_heartbeat self0 =
     (let self = py_print [Lit ''Waiting for vehicle heartbeat''] self0
      in case wait_heartbeat (vehicle self) of
           None \<Rightarrow> Blocks (self\<lparr>vehicle := (vehicle self)\<lparr>inbound := []\<rparr>\<rparr>)
         | Some (m, v) \<Rightarrow>
             Returns (py_print [Lit ''Heartbeat received'']
                        (self\<lparr>vehicle := v, heartbeat_received := True, connected := True\<rparr>)))"

definition is_armed :: "Boat \<Rightarrow> bool \<times> Boat" where
  "is_armed self0 =
     (let (heartbeat, v) = recv_match ''HEARTBEAT'' (vehicle self0);
          self = self0\<lparr>vehicle := v\<rparr>
      in case heartbeat of
           Some hb \<Rightarrow>
             (let armed = base_mode hb AND MAV_MODE_FLAG_SAFETY_ARMED
              in (armed \<noteq> 0, self))
         | None \<Rightarrow> (False, py_print [Lit ''No heartbeat message received.''] self))"

definition arm_vehicle :: "Boat \<Rightarrow> bool \<times> Boat" where
  "arm_vehicle self0 =
     (let self = py_print [Lit ''Arming vehicle''] self0;
          self = self\<lparr>vehicle :=
            command_long_send (vehicle self)
              (target_system (vehicle self)) (target_component (vehicle self))
              MAV_CMD_COMPONENT_ARM_DISARM 0
              1
              0 0 0 0 0 0\<rparr>;
          (armed, self) = is_armed self
      in if armed then
           (True, py_print [Lit ''VEHICLE ARMED''] (self\<lparr>status := Status.ARMED\<rparr>))
         else (False, self))"

definition disarm_vehicle :: "Boat \<Rightarrow> bool \<times> Boat" where
  "disarm_vehicle self0 =
     (let self = py_print [Lit ''DISARMING VEHICLE''] self0;
          self = self\<lparr>vehicle :=
            command_long_send (vehicle self)
              (target_system (vehicle self)) (target_component (vehicle self))
              MAV_CMD_COMPONENT_ARM_DISARM 0
              0
              0 0 0 0 0 0\<rparr>;
          (armed, self) = is_armed self
      in if \<not> armed then
           (True, py_print [Lit ''VEHICLE DISARMED''] (self\<lparr>status := Status.DISARMED\<rparr>))
         else (False, self))"

definition get_flight_mode :: "Boat \<Rightarrow> int option \<times> Boat" where
  "get_flight_mode self0 =
     (let (heartbeat, v) = recv_match ''HEARTBEAT'' (vehicle self0);
          self = self0\<lparr>vehicle := v\<rparr>
      in case heartbeat of
           Some hb \<Rightarrow> (let mode_id = custom_mode hb in (Some mode_id, self))
         | None \<Rightarrow> (None, py_print [Lit ''No heartbeat message received.''] self))"

definition get_vehicle :: "Boat \<Rightarrow> mavfile" where
  "get_vehicle self = vehicle self"

definition heart_beat_received :: "Boat \<Rightarrow> bool" where
  "heart_beat_received self = heartbeat_received self"

definition set_speed :: "Boat \<Rightarrow> py_value \<Rightarrow> Boat" where
  "set_speed self speed = self"

definition change_heading :: "Boat \<Rightarrow> py_value \<Rightarrow> Boat" where
  "change_heading self heading = self"

text \<open>A connection object is truthy, so the \<^verbatim>\<open>if\<close> at line 217 is always taken.\<close>

definition close_connection :: "Boat \<Rightarrow> Boat" where
  "close_connection self =
     py_print [Lit ''Connection closed'']
       (self\<lparr>vehicle := close (vehicle self), connected := False\<rparr>)"

subsection \<open>Relays and propulsion power (lines 222 to 269)\<close>

definition set_relay_on :: "Boat \<Rightarrow> int \<Rightarrow> Boat" where
  "set_relay_on self0 relay_number =
     (let self = self0\<lparr>vehicle :=
            command_long_send (vehicle self0)
              (target_system (vehicle self0)) (target_component (vehicle self0))
              MAV_CMD_DO_SET_RELAY
              0
              relay_number 1 0 0 0 0 0\<rparr>
      in py_print [Lit ''Relay'', Val (PyInt (relay_number + 1)), Lit '' turned on''] self)"

definition set_relay_off :: "Boat \<Rightarrow> int \<Rightarrow> Boat" where
  "set_relay_off self0 relay_number =
     (let self = self0\<lparr>vehicle :=
            command_long_send (vehicle self0)
              (target_system (vehicle self0)) (target_component (vehicle self0))
              MAV_CMD_DO_SET_RELAY
              0
              relay_number 0 0 0 0 0 0\<rparr>
      in py_print [Lit ''Relay'', Val (PyInt (relay_number + 1)), Lit '' turned off''] self)"

definition disable_propulsion :: "Boat \<Rightarrow> Boat" where
  "disable_propulsion self =
     set_relay_off (py_print [Lit ''DISABLING PROPULSION''] self) 1"

definition enable_propulsion :: "Boat \<Rightarrow> Boat" where
  "enable_propulsion self =
     set_relay_on (py_print [Lit ''ENABLING PROPULSION''] self) 1"

definition emergency_stop :: "Boat \<Rightarrow> Boat" where
  "emergency_stop self =
     disable_propulsion (py_print [Lit ''EMERGENCY STOP, DISABLING PROPULSION''] self)"

subsection \<open>The unimplemented differential throttle (lines 323 to 336)\<close>

datatype exception = NotImplementedError

definition set_throttle_differential :: "Boat \<Rightarrow> py_value \<Rightarrow> py_value \<Rightarrow> exception + Boat" where
  "set_throttle_differential self throttle_left throttle_right = Inl NotImplementedError"

subsection \<open>Construction (lines 21 to 60)\<close>

text \<open>
  \<^verbatim>\<open>mavutil.mavlink_connection\<close> opens a connection on which nothing has happened yet;
  the system and component identifiers and the traffic to come belong to the outside
  world.
\<close>

definition mavlink_connection :: "int \<Rightarrow> int \<Rightarrow> rx_event list \<Rightarrow> mavfile" where
  "mavlink_connection ts tc traffic =
     \<lparr>target_system = ts, target_component = tc, inbound = traffic, history = []\<rparr>"

text \<open>
  \<^verbatim>\<open>__init__\<close> with \<^verbatim>\<open>__connect\<close> inlined. \<^verbatim>\<open>__status\<close> and
  \<^verbatim>\<open>__control_authority\<close> do not exist before lines 41 and 48 to 60 assign them and
  nothing reads them earlier; the record is created with the value line 60 leaves in
  \<^verbatim>\<open>__control_authority\<close>, after the dead assignments of lines 48 to 58.
\<close>

definition flight_mode_authority :: "int option \<Rightarrow> ControlAuthority" where
  "flight_mode_authority current_flight_mode =
     (if current_flight_mode = Some 0 then ControlAuthority.MANUAL
      else if current_flight_mode = Some 1 then ControlAuthority.REMOTE
      else if current_flight_mode = Some 2 then ControlAuthority.AUTOMATIC
      else ControlAuthority.UNDEFINED)"

definition init :: "string \<Rightarrow> int \<Rightarrow> int \<Rightarrow> int \<Rightarrow> rx_event list \<Rightarrow> Boat" where
  "init connection_string0 baud0 ts tc traffic =
     (let self = \<lparr>connection_string = connection_string0,
                  baud = baud0,
                  vehicle = mavlink_connection ts tc traffic,
                  connected = False,
                  heartbeat_received = False,
                  confirm_commands = False,
                  current_rudder_value = 1500,
                  current_throttle_value = 1500,
                  last_command_sent = PyNone,
                  mode_switch = PyNone,
                  status = Status.UNDEFINED,
                  control_authority = ControlAuthority.UNDEFINED,
                  rc_channel_11_value = None,
                  stdout = [[Lit ''Connecting to vehicle on:'', Lit '' '', Lit connection_string0]]\<rparr>;
          (armed, self) = is_armed self;
          self = self\<lparr>status := (if armed then Status.ARMED else Status.UNDEFINED)\<rparr>;
          (current_flight_mode, self) = get_flight_mode self;
          self = self\<lparr>control_authority := flight_mode_authority current_flight_mode\<rparr>;
          self = self\<lparr>control_authority := ControlAuthority.REMOTE\<rparr>
      in self)"

section \<open>Sequences of calls\<close>

text \<open>
  A caller of the class makes any sequence of calls of its public methods. A call that
  raises leaves the object as it is and the caller may go on; a call that never returns
  ends the sequence.
\<close>

datatype call =
    Wait_for_heartbeat
  | Arm_vehicle
  | Disarm_vehicle
  | Is_armed
  | Set_speed py_value
  | Change_heading py_value
  | Close_connection
  | Set_relay_on int
  | Set_relay_off int
  | Emergency_stop
  | Disable_propulsion
  | Enable_propulsion
  | Set_rudder py_value
  | Set_throttle py_value
  | Set_throttle_differential py_value py_value
  | Set_raw_servo int int
  | Get_flight_mode
  | Check_rc_mode
  | Get_vehicle
  | Heart_beat_received

fun exec :: "call \<Rightarrow> Boat \<Rightarrow> Boat outcome" where
  "exec Wait_for_heartbeat self = wait_for_heartbeat self"
| "exec Arm_vehicle self = Returns (snd (arm_vehicle self))"
| "exec Disarm_vehicle self = Returns (snd (disarm_vehicle self))"
| "exec Is_armed self = Returns (snd (is_armed self))"
| "exec (Set_speed speed) self = Returns (set_speed self speed)"
| "exec (Change_heading heading) self = Returns (change_heading self heading)"
| "exec Close_connection self = Returns (close_connection self)"
| "exec (Set_relay_on n) self = Returns (set_relay_on self n)"
| "exec (Set_relay_off n) self = Returns (set_relay_off self n)"
| "exec Emergency_stop self = Returns (emergency_stop self)"
| "exec Disable_propulsion self = Returns (disable_propulsion self)"
| "exec Enable_propulsion self = Returns (enable_propulsion self)"
| "exec (Set_rudder v) self = Returns (set_rudder self v)"
| "exec (Set_throttle v) self = Returns (set_throttle self v)"
| "exec (Set_throttle_differential l r) self =
     (case set_throttle_differential self l r of Inl e \<Rightarrow> Returns self | Inr self' \<Rightarrow> Returns self')"
| "exec (Set_raw_servo n p) self = Returns (set_raw_servo self n p)"
| "exec Get_flight_mode self = Returns (snd (get_flight_mode self))"
| "exec Check_rc_mode self = Returns (check_rc_mode self)"
| "exec Get_vehicle self = Returns self"
| "exec Heart_beat_received self = Returns self"

fun run :: "call list \<Rightarrow> Boat \<Rightarrow> Boat" where
  "run [] self = self"
| "run (c # cs) self =
     (case exec c self of Returns self' \<Rightarrow> run cs self' | Blocks self' \<Rightarrow> self')"

subsection \<open>PWM values on the wire\<close>

text \<open>
  The PWM values a sent message carries: the channels of an override that are not the
  value 0 (which MAVLink reads as "channel not overridden", and line 350 writes for the
  five channels the boat leaves alone), and the second parameter of a
  \<^verbatim>\<open>MAV_CMD_DO_SET_SERVO\<close> command.
\<close>

fun pwm_values :: "mavlink_out \<Rightarrow> int list" where
  "pwm_values (RC_CHANNELS_OVERRIDE ts tc chans) = filter (\<lambda>c. c \<noteq> 0) chans"
| "pwm_values (COMMAND_LONG ts tc MAV_CMD_DO_SET_SERVO conf (p1 # p2 # ps)) = [p2]"
| "pwm_values (COMMAND_LONG ts tc cmd conf ps) = []"

definition pwm_in_range :: "int \<Rightarrow> bool" where
  "pwm_in_range p = (1000 \<le> p \<and> p \<le> 2000)"

definition all_pwm_in_range :: "Boat \<Rightarrow> bool" where
  "all_pwm_in_range self =
     list_all (\<lambda>m. list_all pwm_in_range (pwm_values m)) (sent (history (vehicle self)))"

definition setpoints_in_band :: "Boat \<Rightarrow> bool" where
  "setpoints_in_band self =
     (1100 \<le> current_rudder_value self \<and> current_rudder_value self \<le> 1900 \<and>
      1100 \<le> current_throttle_value self \<and> current_throttle_value self \<le> 1900)"

text \<open>The clamp of the specification: a value below the band becomes its lower end, a
  value above it the upper end, a value inside it stays.\<close>

definition clamp :: "int \<Rightarrow> int \<Rightarrow> int \<Rightarrow> int" where
  "clamp p lo hi = (if p < lo then lo else if p > hi then hi else p)"

text \<open>
  A boat for the examples: constructed on a link that is silent during construction and
  then delivers one heartbeat, for which \<^verbatim>\<open>wait_for_heartbeat\<close> is called.
\<close>

definition demo_boat :: "rx_event list \<Rightarrow> Boat" where
  "demo_boat traffic =
     run [Wait_for_heartbeat]
       (init ''udp:0.0.0.0:14550'' 115200 1 1
          (Silence # Silence # Arrives (HEARTBEAT 1 0) # traffic))"

text \<open>The invariant behind the PWM bound: setpoints in the acceptance band, wire in range.\<close>

definition safe :: "Boat \<Rightarrow> bool" where
  "safe self = (setpoints_in_band self \<and> all_pwm_in_range self)"

section \<open>Facts about the connection\<close>

lemma sent_append: "sent (h @ h') = sent h @ sent h'"
  by (induction h rule: sent.induct) simp_all

lemma await_type: "await ty es = (Some m, es') \<Longrightarrow> get_type m = ty"
  by (induction ty es rule: await.induct) (auto split: if_splits)

lemma recv_match_type: "recv_match ty v = (Some m, v') \<Longrightarrow> get_type m = ty"
  by (auto simp: recv_match_def Let_def split: prod.splits dest: await_type)

lemma recv_match_fst: "fst (recv_match ty v) = fst (await ty (inbound v))"
  by (simp add: recv_match_def split: prod.splits)

lemma recv_match_history:
  "history (snd (recv_match ty v)) = history v @ [Recv ty (fst (await ty (inbound v)))]"
  by (simp add: recv_match_def split: prod.splits)

section \<open>Authority arbitration\<close>

lemma poll_control_authority:
  "control_authority (poll_rc_mode_switch self) =
     (case fst (await ''RC_CHANNELS'' (inbound (vehicle self))) of
        None \<Rightarrow> control_authority self
      | Some m \<Rightarrow>
         (case chan11_raw_or_None m of
            None \<Rightarrow> control_authority self
          | Some x \<Rightarrow>
              if x > 1500 then ControlAuthority.REMOTE
              else if x < 1500 then ControlAuthority.MANUAL
              else control_authority self))"
  by (simp add: poll_rc_mode_switch_def recv_match_def py_print_def Let_def
      split: prod.splits option.splits)

lemma poll_history:
  "history (vehicle (poll_rc_mode_switch self)) =
     history (vehicle self) @
       [Recv ''RC_CHANNELS'' (fst (await ''RC_CHANNELS'' (inbound (vehicle self))))]"
  by (simp add: poll_rc_mode_switch_def recv_match_def py_print_def Let_def
      split: prod.splits option.splits)

lemma poll_rc_channel_11_value:
  "rc_channel_11_value (poll_rc_mode_switch self) =
     (case fst (await ''RC_CHANNELS'' (inbound (vehicle self))) of
        None \<Rightarrow> rc_channel_11_value self
      | Some m \<Rightarrow> Some (chan11_raw_or_None m))"
  by (simp add: poll_rc_mode_switch_def recv_match_def py_print_def Let_def
      split: prod.splits option.splits)

lemma poll_other_fields:
  "(poll_rc_mode_switch self)
     \<lparr>control_authority := control_authority self,
      rc_channel_11_value := rc_channel_11_value self,
      vehicle := vehicle self,
      stdout := stdout self\<rparr> = self"
  by (simp add: poll_rc_mode_switch_def recv_match_def py_print_def Let_def
      split: prod.splits option.splits)

lemma poll_link_identity:
  "target_system (vehicle (poll_rc_mode_switch self)) = target_system (vehicle self) \<and>
   target_component (vehicle (poll_rc_mode_switch self)) = target_component (vehicle self)"
  by (simp add: poll_rc_mode_switch_def recv_match_def py_print_def Let_def
      split: prod.splits option.splits)

lemma poll_setpoints:
  "current_rudder_value (poll_rc_mode_switch self) = current_rudder_value self \<and>
   current_throttle_value (poll_rc_mode_switch self) = current_throttle_value self"
  by (simp add: poll_rc_mode_switch_def recv_match_def py_print_def Let_def
      split: prod.splits option.splits)

text \<open>
  C3. A poll that receives no \<^verbatim>\<open>RC_CHANNELS\<close> message before the timeout, or a message
  without a channel-11 value, leaves the authority as it was; a channel-11 value above 1500
  makes the authority \<open>REMOTE\<close>, a value below 1500 makes it \<open>MANUAL\<close>, and the value
  1500 leaves it as it was. The poll is a total function of the state: it has no failing
  branch.
\<close>

theorem poll_rc_mode_switch_authority:
  "control_authority (poll_rc_mode_switch self) =
     (case fst (recv_match ''RC_CHANNELS'' (vehicle self)) of
        None \<Rightarrow> control_authority self
      | Some m \<Rightarrow>
         (case chan11_raw_or_None m of
            None \<Rightarrow> control_authority self
          | Some x \<Rightarrow>
              if x > 1500 then ControlAuthority.REMOTE
              else if x < 1500 then ControlAuthority.MANUAL
              else control_authority self))"
  by (simp add: poll_control_authority recv_match_fst)

text \<open>
  C9, as the code has it. The channel-11 sample is read by one receive, but it is kept:
  line 93 assigns it to the attribute \<open>rc_channel_11_value\<close>, which holds the last sample
  from then on. Apart from the connection (one receive recorded) and the printed text, a
  poll changes the authority and this attribute and no other field.
\<close>

theorem poll_rc_mode_switch_frame:
  "(poll_rc_mode_switch self)
     \<lparr>control_authority := control_authority self,
      rc_channel_11_value := rc_channel_11_value self,
      vehicle := vehicle self,
      stdout := stdout self\<rparr> = self \<and>
   history (vehicle (poll_rc_mode_switch self)) =
     history (vehicle self) @
       [Recv ''RC_CHANNELS'' (fst (await ''RC_CHANNELS'' (inbound (vehicle self))))] \<and>
   rc_channel_11_value (poll_rc_mode_switch self) =
     (case fst (await ''RC_CHANNELS'' (inbound (vehicle self))) of
        None \<Rightarrow> rc_channel_11_value self
      | Some m \<Rightarrow> Some (chan11_raw_or_None m))"
  by (simp add: poll_other_fields poll_history poll_rc_channel_11_value)

text \<open>
  C9 as stated fails: on a boat that has never polled, a poll that receives channel 11 at
  1700 leaves the sample in \<open>rc_channel_11_value\<close>; the authority is \<open>REMOTE\<close> before
  and after.
\<close>

theorem poll_stores_channel_sample:
  "rc_channel_11_value (demo_boat [Arrives (RC_CHANNELS (Some 1700))]) = None \<and>
   rc_channel_11_value
     (poll_rc_mode_switch (demo_boat [Arrives (RC_CHANNELS (Some 1700))])) = Some (Some 1700) \<and>
   control_authority (demo_boat [Arrives (RC_CHANNELS (Some 1700))]) = ControlAuthority.REMOTE \<and>
   control_authority
     (poll_rc_mode_switch (demo_boat [Arrives (RC_CHANNELS (Some 1700))])) = ControlAuthority.REMOTE"
  by code_simp

text \<open>
  C3 at a boat whose authority is \<open>REMOTE\<close>: channel 11 at 1200 hands control to
  \<open>MANUAL\<close>, at 1500 and on a silent link nothing changes.
\<close>

theorem poll_rc_mode_switch_authority_witness:
  "control_authority (demo_boat [Arrives (RC_CHANNELS (Some 1200))]) = ControlAuthority.REMOTE \<and>
   control_authority (poll_rc_mode_switch (demo_boat [Arrives (RC_CHANNELS (Some 1200))])) =
     ControlAuthority.MANUAL \<and>
   control_authority (poll_rc_mode_switch (demo_boat [Arrives (RC_CHANNELS (Some 1500))])) =
     ControlAuthority.REMOTE \<and>
   control_authority (poll_rc_mode_switch (demo_boat [Silence])) = ControlAuthority.REMOTE"
proof -
  have a: "control_authority (demo_boat traffic) = ControlAuthority.REMOTE" for traffic
    by (simp add: demo_boat_def init_def wait_for_heartbeat_def wait_heartbeat_def
          is_armed_def get_flight_mode_def recv_match_def mavlink_connection_def
          py_print_def Let_def)
  have r: "fst (recv_match ''RC_CHANNELS'' (vehicle (demo_boat [Arrives (RC_CHANNELS (Some 1200))]))) =
      Some (RC_CHANNELS (Some 1200))"
    "fst (recv_match ''RC_CHANNELS'' (vehicle (demo_boat [Arrives (RC_CHANNELS (Some 1500))]))) =
      Some (RC_CHANNELS (Some 1500))"
    "fst (recv_match ''RC_CHANNELS'' (vehicle (demo_boat [Silence]))) = None"
    by code_simp+
  show ?thesis
    using poll_rc_mode_switch_authority [of "demo_boat [Arrives (RC_CHANNELS (Some 1200))]"]
      poll_rc_mode_switch_authority [of "demo_boat [Arrives (RC_CHANNELS (Some 1500))]"]
      poll_rc_mode_switch_authority [of "demo_boat [Silence]"]
    by (simp add: a r)
qed

lemma should_allow_fields:
  "current_rudder_value (snd (should_allow_rc_override self)) = current_rudder_value self \<and>
   current_throttle_value (snd (should_allow_rc_override self)) = current_throttle_value self \<and>
   target_system (vehicle (snd (should_allow_rc_override self))) = target_system (vehicle self) \<and>
   target_component (vehicle (snd (should_allow_rc_override self))) =
     target_component (vehicle self) \<and>
   sent (history (vehicle (snd (should_allow_rc_override self)))) = sent (history (vehicle self))"
  by (simp add: should_allow_rc_override_def Let_def py_print_def poll_setpoints
        poll_link_identity poll_history sent_append)

text \<open>
  C4. The decision returned is "the authority is not \<open>MANUAL\<close>", taken on the authority
  as it stands after the poll, if one was made: \<open>False\<close> for \<open>MANUAL\<close>, \<open>True\<close> for
  \<open>REMOTE\<close> and \<open>AUTOMATIC\<close>. When the authority is \<open>UNDEFINED\<close> at entry the state
  passes through exactly one poll (one \<^verbatim>\<open>RC_CHANNELS\<close> receive is added to the history of
  the connection) before the decision; otherwise the connection and the authority are left
  as they were.
\<close>

theorem should_allow_rc_override_decision:
  "fst (should_allow_rc_override self) =
     (control_authority (snd (should_allow_rc_override self)) \<noteq> ControlAuthority.MANUAL) \<and>
   (control_authority self = ControlAuthority.MANUAL \<longrightarrow>
      \<not> fst (should_allow_rc_override self)) \<and>
   (control_authority self = ControlAuthority.REMOTE \<or>
    control_authority self = ControlAuthority.AUTOMATIC \<longrightarrow>
      fst (should_allow_rc_override self)) \<and>
   (control_authority self = ControlAuthority.UNDEFINED \<longrightarrow>
      snd (should_allow_rc_override self) =
        py_print [Val (PyInt (authority_value (control_authority (poll_rc_mode_switch self))))]
          (poll_rc_mode_switch self) \<and>
      history (vehicle (snd (should_allow_rc_override self))) =
        history (vehicle self) @
          [Recv ''RC_CHANNELS'' (fst (await ''RC_CHANNELS'' (inbound (vehicle self))))]) \<and>
   (control_authority self \<noteq> ControlAuthority.UNDEFINED \<longrightarrow>
      vehicle (snd (should_allow_rc_override self)) = vehicle self \<and>
      control_authority (snd (should_allow_rc_override self)) = control_authority self)"
  by (cases "control_authority self"; cases "control_authority (poll_rc_mode_switch self)")
     (simp_all add: should_allow_rc_override_def py_print_def Let_def poll_history)

text \<open>
  C4 at four boats: authority \<open>MANUAL\<close> (after a poll that read 1200), \<open>REMOTE\<close>,
  \<open>AUTOMATIC\<close>, and \<open>UNDEFINED\<close> with channel 11 at 1200 waiting on the link, where
  the one poll is the fourth receive on the connection.
\<close>

theorem should_allow_rc_override_decision_witness:
  "control_authority (poll_rc_mode_switch (demo_boat [Arrives (RC_CHANNELS (Some 1200))])) =
     ControlAuthority.MANUAL \<and>
   \<not> fst (should_allow_rc_override
            (poll_rc_mode_switch (demo_boat [Arrives (RC_CHANNELS (Some 1200))]))) \<and>
   control_authority (demo_boat []) = ControlAuthority.REMOTE \<and>
   fst (should_allow_rc_override (demo_boat [])) \<and>
   vehicle (snd (should_allow_rc_override (demo_boat []))) = vehicle (demo_boat []) \<and>
   fst (should_allow_rc_override ((demo_boat [])\<lparr>control_authority := ControlAuthority.AUTOMATIC\<rparr>)) \<and>
   history (vehicle (snd (should_allow_rc_override
            ((demo_boat [Arrives (RC_CHANNELS (Some 1200))])
               \<lparr>control_authority := ControlAuthority.UNDEFINED\<rparr>)))) =
     [Recv ''HEARTBEAT'' None, Recv ''HEARTBEAT'' None, Recv ''HEARTBEAT'' (Some (HEARTBEAT 1 0)),
      Recv ''RC_CHANNELS'' (Some (RC_CHANNELS (Some 1200)))]"
proof -
  have m: "control_authority (poll_rc_mode_switch (demo_boat [Arrives (RC_CHANNELS (Some 1200))])) =
      ControlAuthority.MANUAL"
    by code_simp
  have r: "control_authority (demo_boat []) = ControlAuthority.REMOTE"
    by code_simp
  have h: "history (vehicle (demo_boat [Arrives (RC_CHANNELS (Some 1200))])) =
      [Recv ''HEARTBEAT'' None, Recv ''HEARTBEAT'' None, Recv ''HEARTBEAT'' (Some (HEARTBEAT 1 0))]"
    "fst (await ''RC_CHANNELS'' (inbound (vehicle (demo_boat [Arrives (RC_CHANNELS (Some 1200))])))) =
      Some (RC_CHANNELS (Some 1200))"
    by code_simp+
  have 1: "\<not> fst (should_allow_rc_override
            (poll_rc_mode_switch (demo_boat [Arrives (RC_CHANNELS (Some 1200))])))"
    using should_allow_rc_override_decision
            [of "poll_rc_mode_switch (demo_boat [Arrives (RC_CHANNELS (Some 1200))])"] m
    by simp
  have 2: "fst (should_allow_rc_override (demo_boat [])) \<and>
      vehicle (snd (should_allow_rc_override (demo_boat []))) = vehicle (demo_boat [])"
    using should_allow_rc_override_decision [of "demo_boat []"] r by simp
  have 3: "fst (should_allow_rc_override
      ((demo_boat [])\<lparr>control_authority := ControlAuthority.AUTOMATIC\<rparr>))"
    using should_allow_rc_override_decision
            [of "(demo_boat [])\<lparr>control_authority := ControlAuthority.AUTOMATIC\<rparr>"]
    by simp
  have 4: "history (vehicle (snd (should_allow_rc_override
            ((demo_boat [Arrives (RC_CHANNELS (Some 1200))])
               \<lparr>control_authority := ControlAuthority.UNDEFINED\<rparr>)))) =
     [Recv ''HEARTBEAT'' None, Recv ''HEARTBEAT'' None, Recv ''HEARTBEAT'' (Some (HEARTBEAT 1 0)),
      Recv ''RC_CHANNELS'' (Some (RC_CHANNELS (Some 1200)))]"
  proof -
    have u: "control_authority ((demo_boat [Arrives (RC_CHANNELS (Some 1200))])
        \<lparr>control_authority := ControlAuthority.UNDEFINED\<rparr>) = ControlAuthority.UNDEFINED"
      by simp
    show ?thesis
      using should_allow_rc_override_decision
              [of "(demo_boat [Arrives (RC_CHANNELS (Some 1200))])
                     \<lparr>control_authority := ControlAuthority.UNDEFINED\<rparr>",
               THEN conjunct2, THEN conjunct2, THEN conjunct2, THEN conjunct1, THEN mp,
               THEN conjunct2, OF u]
      by (simp add: h)
  qed
  show ?thesis using m r 1 2 3 4 by simp
qed

text \<open>
  C10. With the authority \<open>UNDEFINED\<close> at entry, the one poll leaves it \<open>UNDEFINED\<close>
  exactly when no message arrives, the message has no channel-11 value, or the value is
  1500; and whenever the poll leaves it \<open>UNDEFINED\<close> the answer is \<open>True\<close>, the value of
  \<open>UNDEFINED\<close> being -1 and not 0.
\<close>

theorem undefined_authority_allows_override:
  assumes "control_authority self = ControlAuthority.UNDEFINED"
  shows
    "(control_authority (poll_rc_mode_switch self) = ControlAuthority.UNDEFINED \<longleftrightarrow>
        (case fst (await ''RC_CHANNELS'' (inbound (vehicle self))) of
           None \<Rightarrow> True
         | Some m \<Rightarrow> (case chan11_raw_or_None m of None \<Rightarrow> True | Some x \<Rightarrow> x = 1500))) \<and>
     (control_authority (poll_rc_mode_switch self) = ControlAuthority.UNDEFINED \<longrightarrow>
        fst (should_allow_rc_override self) \<and>
        control_authority (snd (should_allow_rc_override self)) = ControlAuthority.UNDEFINED \<and>
        authority_value (control_authority (snd (should_allow_rc_override self))) = -1)"
  using assms
  by (auto simp add: poll_control_authority should_allow_rc_override_def py_print_def Let_def
      split: option.splits)

text \<open>
  C10 at a boat put into the \<open>UNDEFINED\<close> authority, with channel 11 at exactly 1500
  waiting on the link.
\<close>

theorem undefined_authority_allows_override_witness:
  "control_authority
     ((demo_boat [Arrives (RC_CHANNELS (Some 1500))])\<lparr>control_authority := ControlAuthority.UNDEFINED\<rparr>) =
     ControlAuthority.UNDEFINED \<and>
   control_authority (poll_rc_mode_switch
     ((demo_boat [Arrives (RC_CHANNELS (Some 1500))])\<lparr>control_authority := ControlAuthority.UNDEFINED\<rparr>)) =
     ControlAuthority.UNDEFINED \<and>
   fst (should_allow_rc_override
     ((demo_boat [Arrives (RC_CHANNELS (Some 1500))])\<lparr>control_authority := ControlAuthority.UNDEFINED\<rparr>))"
proof -
  have a: "control_authority
     ((demo_boat [Arrives (RC_CHANNELS (Some 1500))])\<lparr>control_authority := ControlAuthority.UNDEFINED\<rparr>) =
     ControlAuthority.UNDEFINED"
    by simp
  have r: "fst (await ''RC_CHANNELS'' (inbound (vehicle
     (demo_boat [Arrives (RC_CHANNELS (Some 1500))])))) = Some (RC_CHANNELS (Some 1500))"
    by code_simp
  show ?thesis
    using undefined_authority_allows_override [OF a] by (simp add: r)
qed

section \<open>Relays and raw servo output\<close>

text \<open>
  C6. For every state, whatever its authority, \<^verbatim>\<open>enable_propulsion\<close> sends the relay-on
  command for relay 1 and \<^verbatim>\<open>disable_propulsion\<close> and \<^verbatim>\<open>emergency_stop\<close> send the
  relay-off command for relay 1, and nothing else happens on the connection (no receive, so
  no poll of the gate). \<^verbatim>\<open>emergency_stop\<close> is \<^verbatim>\<open>disable_propulsion\<close> after one more
  printed line. Changing the authority beforehand changes nothing but the authority
  afterwards.
\<close>

theorem propulsion_bypasses_authority:
  "history (vehicle (enable_propulsion self)) =
     history (vehicle self) @
       [Send (COMMAND_LONG (target_system (vehicle self)) (target_component (vehicle self))
                MAV_CMD_DO_SET_RELAY 0 [1, 1, 0, 0, 0, 0, 0])] \<and>
   history (vehicle (disable_propulsion self)) =
     history (vehicle self) @
       [Send (COMMAND_LONG (target_system (vehicle self)) (target_component (vehicle self))
                MAV_CMD_DO_SET_RELAY 0 [1, 0, 0, 0, 0, 0, 0])] \<and>
   emergency_stop self =
     disable_propulsion (py_print [Lit ''EMERGENCY STOP, DISABLING PROPULSION''] self) \<and>
   (emergency_stop self)\<lparr>stdout := []\<rparr> = (disable_propulsion self)\<lparr>stdout := []\<rparr> \<and>
   enable_propulsion (self\<lparr>control_authority := a\<rparr>) =
     (enable_propulsion self)\<lparr>control_authority := a\<rparr> \<and>
   disable_propulsion (self\<lparr>control_authority := a\<rparr>) =
     (disable_propulsion self)\<lparr>control_authority := a\<rparr> \<and>
   emergency_stop (self\<lparr>control_authority := a\<rparr>) =
     (emergency_stop self)\<lparr>control_authority := a\<rparr>"
  by (simp add: enable_propulsion_def disable_propulsion_def emergency_stop_def
        set_relay_on_def set_relay_off_def command_long_send_def py_print_def Let_def)

text \<open>
  C7. On a connected boat \<^verbatim>\<open>set_raw_servo\<close> sends exactly one servo command, whose PWM
  parameter is the clamp of the argument into 1000 to 2000; no receive is made, and the
  authority plays no part. On a boat that is not connected the connection is left as it
  was.
\<close>

theorem set_raw_servo_clamps:
  "(connected self \<longrightarrow>
      history (vehicle (set_raw_servo self n p)) =
        history (vehicle self) @
          [Send (COMMAND_LONG (target_system (vehicle self)) (target_component (vehicle self))
                   MAV_CMD_DO_SET_SERVO 0 [n, clamp p 1000 2000, 0, 0, 0, 0, 0])]) \<and>
   (\<not> connected self \<longrightarrow> vehicle (set_raw_servo self n p) = vehicle self) \<and>
   set_raw_servo (self\<lparr>control_authority := a\<rparr>) n p =
     (set_raw_servo self n p)\<lparr>control_authority := a\<rparr>"
  by (simp add: set_raw_servo_def command_long_send_def py_print_def Let_def clamp_def
        max_def min_def)

text \<open>
  C7 on the connected example boat (2500 is sent as 2000, 900 as 1000, 1234 as itself) and
  on a boat whose constructor has run but which never waited for a heartbeat.
\<close>

theorem set_raw_servo_clamps_witness:
  "connected (demo_boat []) \<and>
   sent (history (vehicle (set_raw_servo (demo_boat []) 3 2500))) =
     [COMMAND_LONG 1 1 MAV_CMD_DO_SET_SERVO 0 [3, 2000, 0, 0, 0, 0, 0]] \<and>
   sent (history (vehicle (set_raw_servo (demo_boat []) 3 900))) =
     [COMMAND_LONG 1 1 MAV_CMD_DO_SET_SERVO 0 [3, 1000, 0, 0, 0, 0, 0]] \<and>
   sent (history (vehicle (set_raw_servo (demo_boat []) 3 1234))) =
     [COMMAND_LONG 1 1 MAV_CMD_DO_SET_SERVO 0 [3, 1234, 0, 0, 0, 0, 0]] \<and>
   \<not> connected (init ''udp:0.0.0.0:14550'' 115200 1 1 []) \<and>
   vehicle (set_raw_servo (init ''udp:0.0.0.0:14550'' 115200 1 1 []) 3 2500) =
     vehicle (init ''udp:0.0.0.0:14550'' 115200 1 1 [])"
proof -
  have c: "connected (demo_boat [])"
    by code_simp
  have d: "\<not> connected (init ''udp:0.0.0.0:14550'' 115200 1 1 [])"
    by code_simp
  have h: "sent (history (vehicle (demo_boat []))) = []"
    "target_system (vehicle (demo_boat [])) = 1"
    "target_component (vehicle (demo_boat [])) = 1"
    by code_simp+
  have k: "clamp 2500 1000 2000 = 2000" "clamp 900 1000 2000 = 1000" "clamp 1234 1000 2000 = 1234"
    by (simp_all add: clamp_def)
  show ?thesis
    using c d
      set_raw_servo_clamps [of "demo_boat []" 3 2500]
      set_raw_servo_clamps [of "demo_boat []" 3 900]
      set_raw_servo_clamps [of "demo_boat []" 3 1234]
      set_raw_servo_clamps [of "init ''udp:0.0.0.0:14550'' 115200 1 1 []" 3 2500]
    by (simp add: sent_append h k)
qed

section \<open>Arming and disarming\<close>

lemma is_armed_fst:
  "fst (is_armed self) =
     (case fst (await ''HEARTBEAT'' (inbound (vehicle self))) of
        Some hb \<Rightarrow> base_mode hb AND MAV_MODE_FLAG_SAFETY_ARMED \<noteq> 0
      | None \<Rightarrow> False)"
  by (simp add: is_armed_def recv_match_def py_print_def Let_def
      split: prod.splits option.splits)

lemma is_armed_history:
  "history (vehicle (snd (is_armed self))) =
     history (vehicle self) @
       [Recv ''HEARTBEAT'' (fst (await ''HEARTBEAT'' (inbound (vehicle self))))]"
  by (simp add: is_armed_def recv_match_def py_print_def Let_def
      split: prod.splits option.splits)

lemma is_armed_status: "status (snd (is_armed self)) = status self"
  by (simp add: is_armed_def recv_match_def py_print_def Let_def
      split: prod.splits option.splits)

text \<open>
  What the three methods compute. \<^verbatim>\<open>arm_vehicle\<close> sends the arm command and then makes
  one heartbeat receive; it returns \<open>True\<close> exactly when a heartbeat arrived with the
  safety-armed bit set, and sets the status to \<open>ARMED\<close> exactly then. \<^verbatim>\<open>is_armed\<close>
  answers \<open>False\<close> whenever no heartbeat arrives. \<^verbatim>\<open>disarm_vehicle\<close> sends the disarm
  command, makes one heartbeat receive and negates the answer of \<^verbatim>\<open>is_armed\<close>, so that
  the \<open>None\<close> case comes out as \<open>True\<close>: this is the defect shown below.
\<close>

lemma arm_disarm_confirmation:
  "history (vehicle (snd (arm_vehicle self))) =
     history (vehicle self) @
       [Send (COMMAND_LONG (target_system (vehicle self)) (target_component (vehicle self))
                MAV_CMD_COMPONENT_ARM_DISARM 0 [1, 0, 0, 0, 0, 0, 0]),
        Recv ''HEARTBEAT'' (fst (await ''HEARTBEAT'' (inbound (vehicle self))))] \<and>
   fst (arm_vehicle self) =
     (case fst (await ''HEARTBEAT'' (inbound (vehicle self))) of
        Some hb \<Rightarrow> base_mode hb AND MAV_MODE_FLAG_SAFETY_ARMED \<noteq> 0
      | None \<Rightarrow> False) \<and>
   status (snd (arm_vehicle self)) =
     (if fst (arm_vehicle self) then Status.ARMED else status self) \<and>
   history (vehicle (snd (disarm_vehicle self))) =
     history (vehicle self) @
       [Send (COMMAND_LONG (target_system (vehicle self)) (target_component (vehicle self))
                MAV_CMD_COMPONENT_ARM_DISARM 0 [0, 0, 0, 0, 0, 0, 0]),
        Recv ''HEARTBEAT'' (fst (await ''HEARTBEAT'' (inbound (vehicle self))))] \<and>
   fst (disarm_vehicle self) =
     (case fst (await ''HEARTBEAT'' (inbound (vehicle self))) of
        Some hb \<Rightarrow> base_mode hb AND MAV_MODE_FLAG_SAFETY_ARMED = 0
      | None \<Rightarrow> True) \<and>
   status (snd (disarm_vehicle self)) =
     (if fst (disarm_vehicle self) then Status.DISARMED else status self) \<and>
   fst (is_armed self) =
     (case fst (await ''HEARTBEAT'' (inbound (vehicle self))) of
        Some hb \<Rightarrow> base_mode hb AND MAV_MODE_FLAG_SAFETY_ARMED \<noteq> 0
      | None \<Rightarrow> False)"
  by (simp add: arm_vehicle_def disarm_vehicle_def Let_def case_prod_beta
        is_armed_fst is_armed_history is_armed_status command_long_send_def py_print_def
      split: option.splits)

text \<open>
  C8. The claim asks that \<^verbatim>\<open>disarm_vehicle\<close> return \<open>True\<close> and set \<open>DISARMED\<close> only
  when the heartbeat read after the command shows the vehicle not armed, as the docstring
  of the method does ("true if action succeeded, false otherwise"). The code does not: on
  a link that stays silent after the command no heartbeat is received, and the call
  returns \<open>True\<close> and sets the status to \<open>DISARMED\<close>. On the same link the sibling
  \<^verbatim>\<open>arm_vehicle\<close> returns \<open>False\<close> and leaves the status alone.
\<close>

theorem disarm_succeeds_without_heartbeat:
  "history (vehicle (snd (disarm_vehicle (demo_boat [Silence])))) =
     [Recv ''HEARTBEAT'' None, Recv ''HEARTBEAT'' None, Recv ''HEARTBEAT'' (Some (HEARTBEAT 1 0)),
      Send (COMMAND_LONG 1 1 MAV_CMD_COMPONENT_ARM_DISARM 0 [0, 0, 0, 0, 0, 0, 0]),
      Recv ''HEARTBEAT'' None] \<and>
   fst (disarm_vehicle (demo_boat [Silence])) \<and>
   status (demo_boat [Silence]) = Status.UNDEFINED \<and>
   status (snd (disarm_vehicle (demo_boat [Silence]))) = Status.DISARMED \<and>
   \<not> fst (arm_vehicle (demo_boat [Silence])) \<and>
   status (snd (arm_vehicle (demo_boat [Silence]))) = Status.UNDEFINED"
  by code_simp

text \<open>
  The same facts on heartbeats that do arrive: base mode 129 has the safety-armed bit,
  base mode 1 has not.
\<close>

lemma arm_disarm_examples:
  "fst (arm_vehicle (demo_boat [Arrives (HEARTBEAT 129 0)])) \<and>
   status (snd (arm_vehicle (demo_boat [Arrives (HEARTBEAT 129 0)]))) = Status.ARMED \<and>
   \<not> fst (arm_vehicle (demo_boat [Silence])) \<and>
   \<not> fst (disarm_vehicle (demo_boat [Arrives (HEARTBEAT 129 0)])) \<and>
   fst (disarm_vehicle (demo_boat [Arrives (HEARTBEAT 1 0)])) \<and>
   \<not> fst (is_armed (demo_boat [Silence]))"
proof -
  have h: "fst (await ''HEARTBEAT'' (inbound (vehicle (demo_boat [Arrives (HEARTBEAT 129 0)])))) =
      Some (HEARTBEAT 129 0)"
    "fst (await ''HEARTBEAT'' (inbound (vehicle (demo_boat [Arrives (HEARTBEAT 1 0)])))) =
      Some (HEARTBEAT 1 0)"
    "fst (await ''HEARTBEAT'' (inbound (vehicle (demo_boat [Silence])))) = None"
    by code_simp+
  have b: "(129 :: int) AND MAV_MODE_FLAG_SAFETY_ARMED = 128"
    "(1 :: int) AND MAV_MODE_FLAG_SAFETY_ARMED = 0"
    by code_simp+
  show ?thesis
    using arm_disarm_confirmation [of "demo_boat [Arrives (HEARTBEAT 129 0)]"]
      arm_disarm_confirmation [of "demo_boat [Arrives (HEARTBEAT 1 0)]"]
      arm_disarm_confirmation [of "demo_boat [Silence]"]
    by (simp add: h b)
qed

section \<open>Steering and throttle setpoints\<close>

lemma update_steering_fields:
  "current_rudder_value (update_steering self) = current_rudder_value self \<and>
   current_throttle_value (update_steering self) = current_throttle_value self \<and>
   history (vehicle (update_steering self)) =
     history (vehicle self) @
       [Send (RC_CHANNELS_OVERRIDE (target_system (vehicle self)) (target_component (vehicle self))
          [current_rudder_value self, current_throttle_value self, current_throttle_value self,
           0, 0, 0, 0, 0])]"
  by (simp add: update_steering_def Let_def py_print_def rc_channels_override_send_def)

lemma py_print_fields:
  "current_rudder_value (py_print l self) = current_rudder_value self \<and>
   current_throttle_value (py_print l self) = current_throttle_value self \<and>
   vehicle (py_print l self) = vehicle self"
  by (simp add: py_print_def)

text \<open>
  C5. On a connected boat, \<^verbatim>\<open>set_rudder\<close> stores the integer its argument coerces to when
  that integer lies in 1100 to 1900, and otherwise (no coercion, or an integer outside the
  band) leaves the rudder setpoint as it was; it never touches the throttle setpoint.
  \<^verbatim>\<open>set_throttle\<close> does the same with the roles exchanged.
\<close>

theorem setter_stores_band_values:
  assumes "connected self"
  shows
    "current_rudder_value (set_rudder self v) =
       (case py_int v of
          Some n \<Rightarrow> if 1100 \<le> n \<and> n \<le> 1900 then n else current_rudder_value self
        | None \<Rightarrow> current_rudder_value self) \<and>
     current_throttle_value (set_rudder self v) = current_throttle_value self \<and>
     current_throttle_value (set_throttle self v) =
       (case py_int v of
          Some n \<Rightarrow> if 1100 \<le> n \<and> n \<le> 1900 then n else current_throttle_value self
        | None \<Rightarrow> current_throttle_value self) \<and>
     current_rudder_value (set_throttle self v) = current_rudder_value self"
  using assms
  by (auto simp add: set_rudder_def set_throttle_def Let_def case_prod_beta py_print_fields
        update_steering_fields should_allow_fields split: option.splits)

text \<open>
  C5 on the connected example boat, whose setpoints are both 1500: the float 1600.5 is
  stored as 1600, 1901 is not stored, 1900 is, and \<^verbatim>\<open>None\<close> is not.
\<close>

theorem setter_stores_band_values_witness:
  "connected (demo_boat []) \<and>
   current_rudder_value (set_rudder (demo_boat []) (PyFloat (3201 / 2))) = 1600 \<and>
   current_rudder_value (set_rudder (demo_boat []) (PyInt 1901)) = 1500 \<and>
   current_throttle_value (set_throttle (demo_boat []) (PyInt 1900)) = 1900 \<and>
   current_throttle_value (set_throttle (demo_boat []) PyNone) = 1500"
proof -
  have c: "connected (demo_boat [])"
    by code_simp
  have f: "\<lfloor>3201 / 2 :: rat\<rfloor> = 1600"
    by code_simp
  have r: "current_rudder_value (demo_boat []) = 1500" "current_throttle_value (demo_boat []) = 1500"
    by code_simp+
  show ?thesis
    using c setter_stores_band_values [OF c, of "PyFloat (3201 / 2)"]
      setter_stores_band_values [OF c, of "PyInt 1901"]
      setter_stores_band_values [OF c, of "PyInt 1900"]
      setter_stores_band_values [OF c, of PyNone]
    by (simp add: f r)
qed

text \<open>
  C2, as the code has it. A setter called on a boat that is not connected, or with a value
  that does not coerce to an integer, prints one line and does nothing else: no attribute
  changes and nothing is done on the connection. A value that coerces to an integer
  outside 1100 to 1900 is not stored either, but the call goes on to the override gate as
  it does for an accepted value: both setpoints stay as they were, and when the gate
  allows, one override carrying these unchanged setpoints is transmitted.
\<close>

theorem setter_soft_failure:
  "(\<not> connected self \<longrightarrow>
      set_rudder self v = self\<lparr>stdout := stdout self @ [[Lit ''Vehicle not connected'']]\<rparr> \<and>
      set_throttle self v = self\<lparr>stdout := stdout self @ [[Lit ''Vehicle not connected'']]\<rparr>) \<and>
   (connected self \<and> py_int v = None \<longrightarrow>
      set_rudder self v =
        self\<lparr>stdout := stdout self @ [[Lit ''Invalid steering value: '', Val v]]\<rparr> \<and>
      set_throttle self v =
        self\<lparr>stdout := stdout self @ [[Lit ''Invalid steering value: '', Val v]]\<rparr>) \<and>
   (connected self \<and> py_int v = Some n \<and> (n < 1100 \<or> 1900 < n) \<longrightarrow>
      current_rudder_value (set_rudder self v) = current_rudder_value self \<and>
      current_throttle_value (set_rudder self v) = current_throttle_value self \<and>
      current_rudder_value (set_throttle self v) = current_rudder_value self \<and>
      current_throttle_value (set_throttle self v) = current_throttle_value self \<and>
      sent (history (vehicle (set_rudder self v))) =
        sent (history (vehicle self)) @
          (if fst (should_allow_rc_override self)
           then [RC_CHANNELS_OVERRIDE (target_system (vehicle self)) (target_component (vehicle self))
                   [current_rudder_value self, current_throttle_value self,
                    current_throttle_value self, 0, 0, 0, 0, 0]]
           else []) \<and>
      sent (history (vehicle (set_throttle self v))) = sent (history (vehicle (set_rudder self v))))"
  by (auto simp add: set_rudder_def set_throttle_def Let_def case_prod_beta py_print_fields
        update_steering_fields should_allow_fields sent_append py_print_def)

text \<open>
  C2 as stated fails for a value outside the band: on the connected example boat, with
  nothing sent so far and the authority \<open>REMOTE\<close>, \<^verbatim>\<open>set_rudder(2500)\<close> transmits an
  override (with the old setpoints).
\<close>

theorem out_of_band_setter_transmits:
  "connected (demo_boat []) \<and>
   py_int (PyInt 2500) = Some 2500 \<and>
   sent (history (vehicle (demo_boat []))) = [] \<and>
   sent (history (vehicle (set_rudder (demo_boat []) (PyInt 2500)))) =
     [RC_CHANNELS_OVERRIDE 1 1 [1500, 1500, 1500, 0, 0, 0, 0, 0]]"
  by code_simp

text \<open>
  The amended C2 on a boat that never waited for a heartbeat (not connected), and on the
  connected example boat with \<^verbatim>\<open>None\<close> and with 2500.
\<close>

theorem setter_soft_failure_witness:
  "\<not> connected (init ''udp:0.0.0.0:14550'' 115200 1 1 []) \<and>
   vehicle (set_rudder (init ''udp:0.0.0.0:14550'' 115200 1 1 []) (PyInt 1600)) =
     vehicle (init ''udp:0.0.0.0:14550'' 115200 1 1 []) \<and>
   current_rudder_value (set_rudder (init ''udp:0.0.0.0:14550'' 115200 1 1 []) (PyInt 1600)) = 1500 \<and>
   connected (demo_boat []) \<and> py_int PyNone = None \<and>
   vehicle (set_throttle (demo_boat []) PyNone) = vehicle (demo_boat []) \<and>
   current_throttle_value (set_throttle (demo_boat []) PyNone) = 1500 \<and>
   py_int (PyInt 2500) = Some 2500 \<and>
   current_rudder_value (set_rudder (demo_boat []) (PyInt 2500)) = 1500 \<and>
   sent (history (vehicle (set_rudder (demo_boat []) (PyInt 2500)))) =
     [RC_CHANNELS_OVERRIDE 1 1 [1500, 1500, 1500, 0, 0, 0, 0, 0]]"
proof -
  have d: "\<not> connected (init ''udp:0.0.0.0:14550'' 115200 1 1 [])"
    "current_rudder_value (init ''udp:0.0.0.0:14550'' 115200 1 1 []) = 1500"
    by code_simp+
  have c: "connected (demo_boat [])"
    by code_simp
  have r: "current_rudder_value (demo_boat []) = 1500" "current_throttle_value (demo_boat []) = 1500"
    "sent (history (vehicle (demo_boat []))) = []"
    "target_system (vehicle (demo_boat [])) = 1" "target_component (vehicle (demo_boat [])) = 1"
    "fst (should_allow_rc_override (demo_boat []))"
    by code_simp+
  show ?thesis
    using d c
      setter_soft_failure [of "init ''udp:0.0.0.0:14550'' 115200 1 1 []" "PyInt 1600"]
      setter_soft_failure [of "demo_boat []" PyNone]
      setter_soft_failure [of "demo_boat []" "PyInt 2500" 2500]
    by (simp add: r)
qed

section \<open>The PWM bound\<close>

lemma safe_py_print: "safe (py_print l self) = safe self"
  by (simp add: safe_def setpoints_in_band_def all_pwm_in_range_def py_print_def)

lemma safe_recv:
  "safe (self\<lparr>vehicle := snd (recv_match ty (vehicle self))\<rparr>) = safe self"
  by (simp add: safe_def setpoints_in_band_def all_pwm_in_range_def recv_match_def sent_append split: prod.splits)

lemma safe_authority: "safe (self\<lparr>control_authority := a\<rparr>) = safe self"
  by (simp add: safe_def setpoints_in_band_def all_pwm_in_range_def)

lemma safe_status: "safe (self\<lparr>status := a\<rparr>) = safe self"
  by (simp add: safe_def setpoints_in_band_def all_pwm_in_range_def)

lemma safe_rc11: "safe (self\<lparr>rc_channel_11_value := a\<rparr>) = safe self"
  by (simp add: safe_def setpoints_in_band_def all_pwm_in_range_def)

lemma safe_poll: "safe (poll_rc_mode_switch self) = safe self"
  using safe_recv [where self = self and ty = "''RC_CHANNELS''"]
  by (simp add: poll_rc_mode_switch_def Let_def case_prod_beta safe_py_print safe_authority safe_rc11
        split: option.splits)

lemma safe_should_allow: "safe (snd (should_allow_rc_override self)) = safe self"
  by (simp add: should_allow_rc_override_def Let_def safe_py_print safe_poll)

lemma safe_update_steering: "safe self \<Longrightarrow> safe (update_steering self)"
  by (simp add: update_steering_def Let_def rc_channels_override_send_def py_print_def
        safe_def setpoints_in_band_def all_pwm_in_range_def sent_append pwm_in_range_def)

lemma safe_set_rudder: "safe self \<Longrightarrow> safe (set_rudder self v)"
proof -
  assume s: "safe self"
  have band: "1100 \<le> n \<Longrightarrow> n \<le> 1900 \<Longrightarrow> safe (self\<lparr>current_rudder_value := n\<rparr>)" for n
    using s by (simp add: safe_def setpoints_in_band_def all_pwm_in_range_def)
  show ?thesis
    using s band
    by (simp add: set_rudder_def Let_def case_prod_beta safe_py_print safe_should_allow
          safe_update_steering split: option.splits)
qed

lemma safe_set_throttle: "safe self \<Longrightarrow> safe (set_throttle self v)"
proof -
  assume s: "safe self"
  have band: "1100 \<le> n \<Longrightarrow> n \<le> 1900 \<Longrightarrow> safe (self\<lparr>current_throttle_value := n\<rparr>)" for n
    using s by (simp add: safe_def setpoints_in_band_def all_pwm_in_range_def)
  show ?thesis
    using s band
    by (simp add: set_throttle_def Let_def case_prod_beta safe_py_print safe_should_allow
          safe_update_steering split: option.splits)
qed

lemma safe_set_raw_servo: "safe self \<Longrightarrow> safe (set_raw_servo self n p)"
  by (simp add: set_raw_servo_def Let_def command_long_send_def py_print_def
        safe_def setpoints_in_band_def all_pwm_in_range_def sent_append pwm_in_range_def)

lemma safe_command_long:
  "cmd \<noteq> MAV_CMD_DO_SET_SERVO \<Longrightarrow>
   safe (self\<lparr>vehicle := command_long_send (vehicle self) ts tc cmd conf p1 p2 p3 p4 p5 p6 p7\<rparr>) = safe self"
  by (cases cmd) (simp_all add: command_long_send_def safe_def setpoints_in_band_def all_pwm_in_range_def sent_append)

lemma safe_is_armed: "safe (snd (is_armed self)) = safe self"
  using safe_recv [where self = self and ty = "''HEARTBEAT''"]
  by (simp add: is_armed_def Let_def case_prod_beta safe_py_print split: option.splits)

lemma safe_get_flight_mode: "safe (snd (get_flight_mode self)) = safe self"
  using safe_recv [where self = self and ty = "''HEARTBEAT''"]
  by (simp add: get_flight_mode_def Let_def case_prod_beta safe_py_print split: option.splits)

lemma safe_arm: "safe (snd (arm_vehicle self)) = safe self"
  using safe_command_long [of MAV_CMD_COMPONENT_ARM_DISARM "py_print [Lit ''Arming vehicle''] self"]
  by (simp add: arm_vehicle_def Let_def case_prod_beta safe_py_print safe_is_armed safe_status)

lemma safe_disarm: "safe (snd (disarm_vehicle self)) = safe self"
  using safe_command_long [of MAV_CMD_COMPONENT_ARM_DISARM "py_print [Lit ''DISARMING VEHICLE''] self"]
  by (simp add: disarm_vehicle_def Let_def case_prod_beta safe_py_print safe_is_armed safe_status)

lemma safe_relay_on: "safe (set_relay_on self n) = safe self"
  using safe_command_long [of MAV_CMD_DO_SET_RELAY self]
  by (simp add: set_relay_on_def Let_def safe_py_print)

lemma safe_relay_off: "safe (set_relay_off self n) = safe self"
  using safe_command_long [of MAV_CMD_DO_SET_RELAY self]
  by (simp add: set_relay_off_def Let_def safe_py_print)

lemma safe_close: "safe (close_connection self) = safe self"
  by (simp add: close_connection_def close_def py_print_def safe_def setpoints_in_band_def all_pwm_in_range_def sent_append)

lemma safe_check_rc_mode: "safe self \<Longrightarrow> safe (check_rc_mode self)"
  by (simp add: check_rc_mode_def keep_alive_rc_override_def Let_def case_prod_beta
        safe_update_steering safe_py_print safe_should_allow safe_poll)

lemma safe_wait: "safe self \<Longrightarrow> wait_for_heartbeat self = Returns b \<or> wait_for_heartbeat self = Blocks b \<Longrightarrow> safe b"
  by (auto simp add: wait_for_heartbeat_def wait_heartbeat_def Let_def py_print_def
        safe_def setpoints_in_band_def all_pwm_in_range_def sent_append split: option.splits)

lemma safe_exec: "safe self \<Longrightarrow> exec c self = Returns b \<or> exec c self = Blocks b \<Longrightarrow> safe b"
  by (cases c)
     (auto simp add: safe_arm safe_disarm safe_is_armed set_speed_def change_heading_def safe_close
        safe_relay_on safe_relay_off emergency_stop_def disable_propulsion_def enable_propulsion_def
        safe_py_print safe_set_rudder safe_set_throttle set_throttle_differential_def
        safe_set_raw_servo safe_get_flight_mode safe_check_rc_mode dest: safe_wait)

lemma safe_run: "safe self \<Longrightarrow> safe (run cs self)"
proof (induction cs arbitrary: self)
  case Nil
  then show ?case by simp
next
  case (Cons c cs)
  show ?case
  proof (cases "exec c self")
    case (Returns b)
    with Cons.prems have "safe b" using safe_exec by blast
    with Returns Cons.IH show ?thesis by simp
  next
    case (Blocks b)
    with Cons.prems have "safe b" using safe_exec by blast
    with Blocks show ?thesis by simp
  qed
qed

lemma init_setpoints:
  "current_rudder_value (init s bd ts tc traffic) = 1500 \<and> current_throttle_value (init s bd ts tc traffic) = 1500
   \<and> sent (history (vehicle (init s bd ts tc traffic))) = []"
  by (simp add: init_def Let_def case_prod_beta is_armed_def get_flight_mode_def recv_match_def
        mavlink_connection_def py_print_def sent_append split: option.splits)

lemma safe_init: "safe (init s bd ts tc traffic)"
  by (simp add: safe_def setpoints_in_band_def all_pwm_in_range_def init_setpoints)


text \<open>
  C1. A new boat has both setpoints at 1500. After any sequence of calls of the public
  methods on it, both setpoints lie in 1100 to 1900 and every PWM value in every message
  sent so far lies in 1000 to 2000. The override send puts the stored setpoints, and
  nothing else but zeros, on the wire.
\<close>

theorem pwm_always_in_range:
  "current_rudder_value (init s bd ts tc traffic) = 1500 \<and>
   current_throttle_value (init s bd ts tc traffic) = 1500 \<and>
   setpoints_in_band (run cs (init s bd ts tc traffic)) \<and>
   all_pwm_in_range (run cs (init s bd ts tc traffic)) \<and>
   history (vehicle (update_steering self)) =
     history (vehicle self) @
       [Send (RC_CHANNELS_OVERRIDE (target_system (vehicle self)) (target_component (vehicle self))
          [current_rudder_value self, current_throttle_value self, current_throttle_value self,
           0, 0, 0, 0, 0])]"
  using safe_run [OF safe_init, of cs s bd ts tc traffic]
  by (simp add: safe_def init_setpoints update_steering_fields)

text \<open>
  C1 on a link that is silent during construction: a run that connects, sets the rudder to 1600, asks for a throttle of 2500 (not
  stored), and sets servo 3 to 2500 (clamped): three messages are sent.
\<close>

theorem pwm_always_in_range_witness:
  "sent (history (vehicle
     (run [Wait_for_heartbeat, Set_rudder (PyInt 1600), Set_throttle (PyInt 2500),
           Set_raw_servo 3 2500]
        (init ''udp:0.0.0.0:14550'' 115200 1 1 [Silence, Silence, Arrives (HEARTBEAT 1 0)])))) =
     [RC_CHANNELS_OVERRIDE 1 1 [1600, 1500, 1500, 0, 0, 0, 0, 0],
      RC_CHANNELS_OVERRIDE 1 1 [1600, 1500, 1500, 0, 0, 0, 0, 0],
      COMMAND_LONG 1 1 MAV_CMD_DO_SET_SERVO 0 [3, 2000, 0, 0, 0, 0, 0]] \<and>
   all_pwm_in_range
     (run [Wait_for_heartbeat, Set_rudder (PyInt 1600), Set_throttle (PyInt 2500),
           Set_raw_servo 3 2500]
        (init ''udp:0.0.0.0:14550'' 115200 1 1 [Silence, Silence, Arrives (HEARTBEAT 1 0)])) \<and>
   setpoints_in_band
     (run [Wait_for_heartbeat, Set_rudder (PyInt 1600), Set_throttle (PyInt 2500),
           Set_raw_servo 3 2500]
        (init ''udp:0.0.0.0:14550'' 115200 1 1 [Silence, Silence, Arrives (HEARTBEAT 1 0)]))"
proof -
  have e: "sent (history (vehicle
     (run [Wait_for_heartbeat, Set_rudder (PyInt 1600), Set_throttle (PyInt 2500),
           Set_raw_servo 3 2500]
        (init ''udp:0.0.0.0:14550'' 115200 1 1 [Silence, Silence, Arrives (HEARTBEAT 1 0)])))) =
     [RC_CHANNELS_OVERRIDE 1 1 [1600, 1500, 1500, 0, 0, 0, 0, 0],
      RC_CHANNELS_OVERRIDE 1 1 [1600, 1500, 1500, 0, 0, 0, 0, 0],
      COMMAND_LONG 1 1 MAV_CMD_DO_SET_SERVO 0 [3, 2000, 0, 0, 0, 0, 0]]"
    by code_simp
  show ?thesis
    using e pwm_always_in_range
      [of "''udp:0.0.0.0:14550''" 115200 1 1 "[Silence, Silence, Arrives (HEARTBEAT 1 0)]"
          "[Wait_for_heartbeat, Set_rudder (PyInt 1600), Set_throttle (PyInt 2500),
            Set_raw_servo 3 2500]"]
    by simp
qed

end
